theory Spec2Isabelle
  imports Main "HOL-Library.Word" "HOL-Library.AList"
begin

section \<open>The mock backend: \<^verbatim>\<open>cmd/mock-server/backend/http-server.go\<close>\<close>

subsection \<open>JSON documents and Go values\<close>

text \<open>
  A request body is read through its parse tree: the first JSON value of the byte stream,
  with the members of an object in document order (a name may occur more than once) and
  number literals kept as written. A body from which the decoder reads no JSON value
  (an empty body, a syntax error, nesting beyond the decoder's limit) is \<open>None\<close>.
\<close>

datatype json =
    JNull
  | JBool bool
  | JNumber string
  | JString string
  | JArray "json list"
  | JObject "(string \<times> json) list"

text \<open>
  A \<^verbatim>\<open>float64\<close> is its IEEE 754 bit pattern: the handlers store and return such values
  and never compute with them. A \<^verbatim>\<open>time.Time\<close> is an instant counted from the zero time,
  so that the zero value of the type is \<open>0\<close>. Conversion of a number literal
  (\<^verbatim>\<open>strconv.ParseFloat\<close>) and of an RFC 3339 string (\<^verbatim>\<open>Time.UnmarshalJSON\<close>) are
  parameters of the decoder: each returns \<open>None\<close> where the library reports an error.
\<close>

type_synonym float64 = "64 word"
type_synonym Time = int
type_synonym ParseFloat = "string \<Rightarrow> float64 option"
type_synonym ParseTime = "string \<Rightarrow> Time option"

text \<open>The dynamic values of \<^verbatim>\<open>map[string]any\<close>, as \<^verbatim>\<open>encoding/json\<close> builds them.\<close>

datatype any =
    ANil
  | ABool bool
  | AFloat64 float64
  | AString string
  | ASlice "any list"
  | AMap "(string \<times> any) list"

fun valueInterface :: "ParseFloat \<Rightarrow> json \<Rightarrow> any option" where
  "valueInterface pf JNull = Some ANil"
| "valueInterface pf (JBool b) = Some (ABool b)"
| "valueInterface pf (JNumber s) = map_option AFloat64 (pf s)"
| "valueInterface pf (JString s) = Some (AString s)"
| "valueInterface pf (JArray vs) = map_option ASlice (those (map (valueInterface pf) vs))"
| "valueInterface pf (JObject kvs) =
     map_option (\<lambda>es. AMap (fold (\<lambda>(k, x). AList.update k x) es []))
       (those (map (\<lambda>(k, v). map_option (Pair k) (valueInterface pf v)) kvs))"

subsection \<open>The structs\<close>

record Notification =
  Type :: string
  Channel :: string
  Enabled :: bool
  Frequency :: float64

text \<open>A slice or a map is \<open>None\<close> when it is \<^verbatim>\<open>nil\<close>, the zero value of its type.\<close>

record Preferences =
  IsPublic :: bool
  ShowEmail :: bool
  Theme :: string
  Tags :: "string list option"
  Settings :: "(string \<times> any) list option"
  Notifications :: "Notification list option"

record User =
  ID :: string
  Username :: string
  Email :: string
  CreatedAt :: Time
  Preferences :: Preferences

definition zero_Notification :: Notification where
  "zero_Notification = \<lparr>Type = [], Channel = [], Enabled = False, Frequency = 0\<rparr>"

definition zero_Preferences :: Preferences where
  "zero_Preferences =
     \<lparr>IsPublic = False, ShowEmail = False, Theme = [], Tags = None, Settings = None,
      Notifications = None\<rparr>"

definition zero_User :: User where
  "zero_User =
     \<lparr>ID = [], Username = [], Email = [], CreatedAt = 0, Preferences = zero_Preferences\<rparr>"

subsection \<open>Decoding a body into a struct (\<^verbatim>\<open>c.ShouldBindJSON\<close>)\<close>

text \<open>
  gin's \<^verbatim>\<open>ShouldBindJSON\<close> decodes the body with \<^verbatim>\<open>encoding/json\<close> and then runs the
  struct validator, which accepts every value of these structs (no field carries a
  \<^verbatim>\<open>binding\<close> tag). The decoder is modelled as the library documents it:
  \<^item> a member selects the field whose \<^verbatim>\<open>json\<close> name equals its name; failing that, the first
    field whose name is equal under case folding; a member that selects no field is
    skipped;
  \<^item> \<^verbatim>\<open>null\<close> leaves a \<^verbatim>\<open>bool\<close>, \<^verbatim>\<open>string\<close>, \<^verbatim>\<open>float64\<close>, struct or \<^verbatim>\<open>time.Time\<close> as it is and
    sets a slice or a map to \<^verbatim>\<open>nil\<close>;
  \<^item> a value of another JSON type than the field's is an error (the decoder goes on, and
    reports the error when it is done: the binding fails either way);
  \<^item> the members of an object are decoded in document order, each into the value the
    struct holds by then: a member that selects a field a second time is decoded into
    what the first one left (a map keeps its entries, a slice its elements).
\<close>

definition upper :: "char \<Rightarrow> char" where
  "upper c =
     (let n = (of_char c :: nat) in if 97 \<le> n \<and> n \<le> 122 then char_of (n - 32) else c)"

text \<open>
  \<^verbatim>\<open>foldName\<close>: ASCII letters go to upper case, and the two other code points whose
  simple case folding reaches an ASCII letter (U+017F to \<open>S\<close>, U+212A to \<open>K\<close>, in UTF-8)
  go to that letter. Every other byte is kept; the library maps the code point to the
  least of its folding class, which is not ASCII either, so the comparison with a field
  name (all ASCII) comes out the same.
\<close>

fun foldName :: "string \<Rightarrow> string" where
  "foldName [] = []"
| "foldName (c # cs) =
     (if c = CHR 0xC5 \<and> take 1 cs = [CHR 0xBF] then CHR ''S'' # foldName (drop 1 cs)
      else if c = CHR 0xE2 \<and> take 2 cs = [CHR 0x84, CHR 0xAA]
        then CHR ''K'' # foldName (drop 2 cs)
      else upper c # foldName cs)"

definition field_of :: "string list \<Rightarrow> string \<Rightarrow> string option" where
  "field_of names key =
     (if key \<in> set names then Some key
      else find (\<lambda>n. foldName n = foldName key) names)"

text \<open>Decoding one JSON value into a Go value that holds \<open>cur\<close>; \<open>None\<close> is the error.\<close>

definition into_bool :: "bool \<Rightarrow> json \<Rightarrow> bool option" where
  "into_bool cur v = (case v of JNull \<Rightarrow> Some cur | JBool b \<Rightarrow> Some b | _ \<Rightarrow> None)"

definition into_string :: "string \<Rightarrow> json \<Rightarrow> string option" where
  "into_string cur v = (case v of JNull \<Rightarrow> Some cur | JString s \<Rightarrow> Some s | _ \<Rightarrow> None)"

definition into_float64 :: "ParseFloat \<Rightarrow> float64 \<Rightarrow> json \<Rightarrow> float64 option" where
  "into_float64 pf cur v = (case v of JNull \<Rightarrow> Some cur | JNumber s \<Rightarrow> pf s | _ \<Rightarrow> None)"

definition into_Time :: "ParseTime \<Rightarrow> Time \<Rightarrow> json \<Rightarrow> Time option" where
  "into_Time pt cur v = (case v of JNull \<Rightarrow> Some cur | JString s \<Rightarrow> pt s | _ \<Rightarrow> None)"

text \<open>
  A slice is a view of a backing array, and the decoder writes an array into the slice
  it finds: element \<open>i\<close> of the array is decoded into element \<open>i\<close> of the backing array as
  it is (so \<^verbatim>\<open>null\<close> keeps what is there), the length becomes the number of elements, and
  what the backing array holds beyond it stays. A slice under decoding is therefore a
  pair: the slice (\<open>None\<close> for \<^verbatim>\<open>nil\<close>) and the elements of its backing array from its
  length on (the spare ones; beyond them every element is zero, within the capacity or
  after the array is grown). \<open>elements_into\<close> takes the backing array from index 0 on and
  returns the decoded elements with the spare ones that are left.
\<close>

fun elements_into ::
  "('a \<Rightarrow> json \<Rightarrow> 'a option) \<Rightarrow> 'a \<Rightarrow> 'a list \<Rightarrow> json list \<Rightarrow> ('a list \<times> 'a list) option"
where
  "elements_into elem zero backing [] = Some ([], backing)"
| "elements_into elem zero backing (v # vs) =
     (case elem (case backing of [] \<Rightarrow> zero | x # _ \<Rightarrow> x) v of
        None \<Rightarrow> None
      | Some y \<Rightarrow>
          map_option (\<lambda>(ys, spare). (y # ys, spare))
            (elements_into elem zero (case backing of [] \<Rightarrow> [] | _ # rest \<Rightarrow> rest) vs))"

text \<open>
  \<^verbatim>\<open>null\<close> sets the slice to \<^verbatim>\<open>nil\<close> and the empty array to a new empty slice; both drop
  the backing array.
\<close>

definition into_slice ::
  "('a \<Rightarrow> json \<Rightarrow> 'a option) \<Rightarrow> 'a \<Rightarrow> 'a list option \<times> 'a list \<Rightarrow> json
   \<Rightarrow> ('a list option \<times> 'a list) option" where
  "into_slice elem zero cur v =
     (case v of
        JNull \<Rightarrow> Some (None, [])
      | JArray vs \<Rightarrow>
          if vs = [] then Some (Some [], [])
          else map_option (\<lambda>(ys, spare). (Some ys, spare))
                 (elements_into elem zero
                    ((case fst cur of None \<Rightarrow> [] | Some xs \<Rightarrow> xs) @ snd cur) vs)
      | _ \<Rightarrow> None)"

definition into_strings ::
  "string list option \<times> string list \<Rightarrow> json \<Rightarrow> (string list option \<times> string list) option"
where
  "into_strings cur v = into_slice into_string [] cur v"

text \<open>
  A map is decoded into the map the field holds (a new one when it is \<^verbatim>\<open>nil\<close>): its
  entries stay, and each member sets its key to a value built anew.
\<close>

definition into_map ::
  "ParseFloat \<Rightarrow> (string \<times> any) list option \<Rightarrow> json \<Rightarrow> (string \<times> any) list option option"
where
  "into_map pf cur v =
     (case v of
        JNull \<Rightarrow> Some None
      | JObject kvs \<Rightarrow>
          map_option
            (\<lambda>es. Some (fold (\<lambda>(k, x). AList.update k x) es
                          (case cur of None \<Rightarrow> [] | Some m \<Rightarrow> m)))
            (those (map (\<lambda>(k, x). map_option (Pair k) (valueInterface pf x)) kvs))
      | _ \<Rightarrow> None)"

text \<open>The members of an object, decoded in order into a struct.\<close>

fun object_into :: "(string \<times> json \<Rightarrow> 's \<Rightarrow> 's option) \<Rightarrow> (string \<times> json) list \<Rightarrow> 's \<Rightarrow> 's option"
where
  "object_into member [] s = Some s"
| "object_into member (kv # kvs) s =
     (case member kv s of None \<Rightarrow> None | Some s' \<Rightarrow> object_into member kvs s')"

definition Notification_fields :: "string list" where
  "Notification_fields = [''type'', ''channel'', ''enabled'', ''frequency'']"

definition Notification_member ::
  "ParseFloat \<Rightarrow> string \<times> json \<Rightarrow> Notification \<Rightarrow> Notification option" where
  "Notification_member pf kv n =
     (case field_of Notification_fields (fst kv) of
        None \<Rightarrow> Some n
      | Some f \<Rightarrow>
          if f = ''type'' then map_option (\<lambda>x. n\<lparr>Type := x\<rparr>) (into_string (Type n) (snd kv))
          else if f = ''channel''
            then map_option (\<lambda>x. n\<lparr>Channel := x\<rparr>) (into_string (Channel n) (snd kv))
          else if f = ''enabled''
            then map_option (\<lambda>x. n\<lparr>Enabled := x\<rparr>) (into_bool (Enabled n) (snd kv))
          else map_option (\<lambda>x. n\<lparr>Frequency := x\<rparr>) (into_float64 pf (Frequency n) (snd kv)))"

definition into_Notification :: "ParseFloat \<Rightarrow> Notification \<Rightarrow> json \<Rightarrow> Notification option"
where
  "into_Notification pf cur v =
     (case v of
        JNull \<Rightarrow> Some cur
      | JObject kvs \<Rightarrow> object_into (Notification_member pf) kvs cur
      | _ \<Rightarrow> None)"

definition into_Notifications ::
  "ParseFloat \<Rightarrow> Notification list option \<times> Notification list \<Rightarrow> json
   \<Rightarrow> (Notification list option \<times> Notification list) option" where
  "into_Notifications pf cur v = into_slice (into_Notification pf) zero_Notification cur v"

text \<open>
  A struct under decoding: its value, and the spare elements of the backing arrays of
  its two slices (of the preferences; \<^verbatim>\<open>User\<close> holds them as a nested struct).
\<close>

record 's decoding =
  target :: 's
  Tags_spare :: "string list"
  Notifications_spare :: "Notification list"

definition fresh :: "'s \<Rightarrow> 's decoding" where
  "fresh zero = \<lparr>target = zero, Tags_spare = [], Notifications_spare = []\<rparr>"

definition Preferences_fields :: "string list" where
  "Preferences_fields =
     [''isPublic'', ''showEmail'', ''theme'', ''tags'', ''settings'', ''notifications'']"

definition Preferences_member ::
  "ParseFloat \<Rightarrow> string \<times> json \<Rightarrow> Preferences decoding \<Rightarrow> Preferences decoding option" where
  "Preferences_member pf kv d =
     (let p = target d in
      case field_of Preferences_fields (fst kv) of
        None \<Rightarrow> Some d
      | Some f \<Rightarrow>
          if f = ''isPublic''
            then map_option (\<lambda>x. d\<lparr>target := p\<lparr>IsPublic := x\<rparr>\<rparr>) (into_bool (IsPublic p) (snd kv))
          else if f = ''showEmail''
            then map_option (\<lambda>x. d\<lparr>target := p\<lparr>ShowEmail := x\<rparr>\<rparr>)
                   (into_bool (ShowEmail p) (snd kv))
          else if f = ''theme''
            then map_option (\<lambda>x. d\<lparr>target := p\<lparr>Theme := x\<rparr>\<rparr>) (into_string (Theme p) (snd kv))
          else if f = ''tags''
            then map_option (\<lambda>(x, spare). d\<lparr>target := p\<lparr>Tags := x\<rparr>, Tags_spare := spare\<rparr>)
                   (into_strings (Tags p, Tags_spare d) (snd kv))
          else if f = ''settings''
            then map_option (\<lambda>x. d\<lparr>target := p\<lparr>Settings := x\<rparr>\<rparr>)
                   (into_map pf (Settings p) (snd kv))
          else map_option
                 (\<lambda>(x, spare). d\<lparr>target := p\<lparr>Notifications := x\<rparr>, Notifications_spare := spare\<rparr>)
                 (into_Notifications pf (Notifications p, Notifications_spare d) (snd kv)))"

definition into_Preferences ::
  "ParseFloat \<Rightarrow> Preferences decoding \<Rightarrow> json \<Rightarrow> Preferences decoding option" where
  "into_Preferences pf cur v =
     (case v of
        JNull \<Rightarrow> Some cur
      | JObject kvs \<Rightarrow> object_into (Preferences_member pf) kvs cur
      | _ \<Rightarrow> None)"

definition User_fields :: "string list" where
  "User_fields = [''id'', ''username'', ''email'', ''createdAt'', ''preferences'']"

definition User_member ::
  "ParseFloat \<Rightarrow> ParseTime \<Rightarrow> string \<times> json \<Rightarrow> User decoding \<Rightarrow> User decoding option" where
  "User_member pf pt kv d =
     (let u = target d in
      case field_of User_fields (fst kv) of
        None \<Rightarrow> Some d
      | Some f \<Rightarrow>
          if f = ''id''
            then map_option (\<lambda>x. d\<lparr>target := u\<lparr>ID := x\<rparr>\<rparr>) (into_string (ID u) (snd kv))
          else if f = ''username''
            then map_option (\<lambda>x. d\<lparr>target := u\<lparr>Username := x\<rparr>\<rparr>)
                   (into_string (Username u) (snd kv))
          else if f = ''email''
            then map_option (\<lambda>x. d\<lparr>target := u\<lparr>Email := x\<rparr>\<rparr>) (into_string (Email u) (snd kv))
          else if f = ''createdAt''
            then map_option (\<lambda>x. d\<lparr>target := u\<lparr>CreatedAt := x\<rparr>\<rparr>)
                   (into_Time pt (CreatedAt u) (snd kv))
          else map_option
                 (\<lambda>e. \<lparr>target = u\<lparr>Preferences := target e\<rparr>, Tags_spare = Tags_spare e,
                       Notifications_spare = Notifications_spare e\<rparr>)
                 (into_Preferences pf
                    \<lparr>target = Preferences u, Tags_spare = Tags_spare d,
                     Notifications_spare = Notifications_spare d\<rparr> (snd kv)))"

definition into_User :: "ParseFloat \<Rightarrow> ParseTime \<Rightarrow> User decoding \<Rightarrow> json \<Rightarrow> User decoding option"
where
  "into_User pf pt cur v =
     (case v of
        JNull \<Rightarrow> Some cur
      | JObject kvs \<Rightarrow> object_into (User_member pf pt) kvs cur
      | _ \<Rightarrow> None)"

datatype bind_error = SyntaxError | UnmarshalTypeError

text \<open>
  \<^verbatim>\<open>var preferences struct {...}; c.ShouldBindJSON(&preferences)\<close> and
  \<^verbatim>\<open>var user User; c.ShouldBindJSON(&user)\<close>: the target is a fresh variable, all zero,
  and the handler reads the struct the decoder leaves in it.
\<close>

definition ShouldBindJSON_preferences :: "ParseFloat \<Rightarrow> json option \<Rightarrow> bind_error + Preferences"
where
  "ShouldBindJSON_preferences pf body =
     (case body of
        None \<Rightarrow> Inl SyntaxError
      | Some v \<Rightarrow>
          (case into_Preferences pf (fresh zero_Preferences) v of
             None \<Rightarrow> Inl UnmarshalTypeError
           | Some d \<Rightarrow> Inr (target d)))"

definition ShouldBindJSON_User :: "ParseFloat \<Rightarrow> ParseTime \<Rightarrow> json option \<Rightarrow> bind_error + User"
where
  "ShouldBindJSON_User pf pt body =
     (case body of
        None \<Rightarrow> Inl SyntaxError
      | Some v \<Rightarrow>
          (case into_User pf pt (fresh zero_User) v of
             None \<Rightarrow> Inl UnmarshalTypeError
           | Some d \<Rightarrow> Inr (target d)))"

subsection \<open>The handlers\<close>

text \<open>
  \<^verbatim>\<open>var users = make(map[string]*User)\<close> is the state. Every \<^verbatim>\<open>POST /users\<close> stores the
  address of a variable of its own under one key, so no two keys share a user and the
  map from keys to users is the whole of it. A handler takes the state and returns the
  new state with the response: the status and what \<^verbatim>\<open>c.JSON\<close> is given.
\<close>

datatype payload =
    JSON_User User
  | JSON_error_bind bind_error
  | JSON_error string

type_synonym response = "nat \<times> payload"

definition StatusOK :: nat where "StatusOK = 200"
definition StatusCreated :: nat where "StatusCreated = 201"
definition StatusBadRequest :: nat where "StatusBadRequest = 400"
definition StatusNotFound :: nat where "StatusNotFound = 404"

text \<open>
  \<^verbatim>\<open>router.POST("/users", ...)\<close>. \<open>new_uuid\<close> is what \<^verbatim>\<open>uuid.New().String()\<close> returns and
  \<open>now\<close> what \<^verbatim>\<open>time.Now()\<close> returns in this call.
\<close>

definition post_users ::
  "ParseFloat \<Rightarrow> ParseTime \<Rightarrow> string \<Rightarrow> Time \<Rightarrow> (string \<rightharpoonup> User) \<Rightarrow> json option
   \<Rightarrow> (string \<rightharpoonup> User) \<times> response" where
  "post_users pf pt new_uuid now users body =
     (case ShouldBindJSON_User pf pt body of
        Inl err \<Rightarrow> (users, StatusBadRequest, JSON_error_bind err)
      | Inr user \<Rightarrow>
          let user = user\<lparr>ID := new_uuid\<rparr>;
              user = user\<lparr>CreatedAt := now\<rparr>;
              user = user\<lparr>Preferences := (Preferences user)\<lparr>IsPublic := False\<rparr>\<rparr>;
              user = user\<lparr>Preferences := (Preferences user)\<lparr>ShowEmail := True\<rparr>\<rparr>;
              user = user\<lparr>Preferences := (Preferences user)\<lparr>Theme := ''light''\<rparr>\<rparr>;
              user = user\<lparr>Preferences := (Preferences user)\<lparr>Tags := Some []\<rparr>\<rparr>;
              user = user\<lparr>Preferences := (Preferences user)\<lparr>Settings := Some []\<rparr>\<rparr>;
              user = user\<lparr>Preferences := (Preferences user)\<lparr>Notifications := Some []\<rparr>\<rparr>
          in (users(Email user \<mapsto> user), StatusCreated, JSON_User user))"

text \<open>\<^verbatim>\<open>router.GET("/users/email/:email", ...)\<close>\<close>

definition get_user_by_email :: "(string \<rightharpoonup> User) \<Rightarrow> string \<Rightarrow> (string \<rightharpoonup> User) \<times> response"
where
  "get_user_by_email users email =
     (case users email of
        None \<Rightarrow> (users, StatusNotFound, JSON_error ''user not found'')
      | Some user \<Rightarrow> (users, StatusOK, JSON_User user))"

text \<open>\<^verbatim>\<open>router.PUT("/users/:email/preferences", ...)\<close>\<close>

definition put_user_preferences ::
  "ParseFloat \<Rightarrow> (string \<rightharpoonup> User) \<Rightarrow> string \<Rightarrow> json option \<Rightarrow> (string \<rightharpoonup> User) \<times> response"
where
  "put_user_preferences pf users email body =
     (case users email of
        None \<Rightarrow> (users, StatusNotFound, JSON_error ''user not found'')
      | Some user \<Rightarrow>
          (case ShouldBindJSON_preferences pf body of
             Inl err \<Rightarrow> (users, StatusBadRequest, JSON_error_bind err)
           | Inr preferences \<Rightarrow>
               let user = user\<lparr>Preferences := preferences\<rparr>
               in (users(email \<mapsto> user), StatusOK, JSON_User user)))"

section \<open>The gateway's Config Model and Routing Table\<close>

text \<open>
  Modelled from the spec: the gateway engine is not among the repository's source files
  (they hold the mock backend and two configuration documents), so the Config Model and
  the Routing Table follow sections 3 and 4.4 of the specification. The configuration
  document \<^verbatim>\<open>configs/proxy-mock-server.yaml\<close> is a file of the repository and is
  transcribed below as a value of this model.
\<close>

subsection \<open>Config model\<close>

record Cors =
  allowOrigins :: "string list"
  allowMethods :: "string list"
  allowHeaders :: "string list"
  exposeHeaders :: "string list"
  allowCredentials :: bool

record Router =
  server :: string
  prefix :: string
  cors :: Cors

record Server =
  name :: string
  description :: string
  allowedTools :: "string list"
  config :: "(string \<times> string) list"

datatype position = Path | Query | Body | FormData

datatype scalar = String | Boolean | Number

text \<open>
  The type of an argument: a scalar with its \<^verbatim>\<open>enum\<close> constraint when one is declared, an
  array with its \<^verbatim>\<open>items\<close>, or an object with its \<^verbatim>\<open>properties\<close>.
\<close>

datatype schema =
    Scalar scalar "string list option"
  | Array "schema option"
  | Object "(string \<times> schema) list"

record Arg =
  name :: string
  position :: position
  required :: bool
  type :: schema
  default :: string
  description :: string

record Tool =
  name :: string
  description :: string
  http_method :: string
  endpoint :: string
  headers :: "(string \<times> string) list"
  args :: "Arg list"
  requestBody :: "string option"
  responseBody :: string

record Config =
  name :: string
  tenant :: string
  routers :: "Router list"
  servers :: "Server list"
  tools :: "Tool list"

text \<open>
  Modelled from the spec: the validation of a Config at load time is not among the
  repository's source files. Section 3: the names of servers and of tools are unique keys, the
  names of a tool's arguments are unique within it, and every \<^verbatim>\<open>Router.server\<close> and every
  \<^verbatim>\<open>Server.allowedTools\<close> entry resolves to an existing server or tool. The section's
  condition on the templates of a tool is left out: every Config the specification
  calls valid satisfies \<open>valid_config\<close>.
\<close>

definition valid_config :: "Config \<Rightarrow> bool" where
  "valid_config c =
     (distinct (map Server.name (servers c))
      \<and> distinct (map Tool.name (tools c))
      \<and> list_all (\<lambda>t. distinct (map Arg.name (args t))) (tools c)
      \<and> list_all (\<lambda>r. server r \<in> set (map Server.name (servers c))) (routers c)
      \<and> list_all (\<lambda>s. list_all (\<lambda>n. n \<in> set (map Tool.name (tools c))) (allowedTools s))
            (servers c))"

subsection \<open>Routing table\<close>

text \<open>
  Modelled from the spec: the Routing Table is not among the repository's source
  files. Section 4.4, the build step: for every Router, its prefix is associated with its
  target Server; for every Server, the effective tools are those of the globally
  defined tools that its \<^verbatim>\<open>allowedTools\<close> names. Where two routers have one prefix, the
  first stands.
\<close>

record RoutingTable =
  prefixes :: "(string \<times> Server) list"
  toolsets :: "(string \<times> Tool list) list"

definition find_server :: "Config \<Rightarrow> string \<Rightarrow> Server option" where
  "find_server c n = find (\<lambda>s. Server.name s = n) (servers c)"

definition effective_tools :: "Config \<Rightarrow> Server \<Rightarrow> Tool list" where
  "effective_tools c s = filter (\<lambda>t. Tool.name t \<in> set (allowedTools s)) (tools c)"

definition build :: "Config \<Rightarrow> RoutingTable" where
  "build c =
     \<lparr>prefixes = List.map_filter (\<lambda>r. map_option (Pair (prefix r)) (find_server c (server r)))
                   (routers c),
      toolsets = map (\<lambda>s. (Server.name s, effective_tools c s)) (servers c)\<rparr>"

text \<open>
  Modelled from the spec: \<^verbatim>\<open>Resolve(prefix, toolName) -> (Server, Tool) or NotFound\<close>, a
  lookup in the table built from the active Config.
\<close>

datatype resolved = NotFound | Found Server Tool

definition Resolve :: "RoutingTable \<Rightarrow> string \<Rightarrow> string \<Rightarrow> resolved" where
  "Resolve tbl p n =
     (case map_of (prefixes tbl) p of
        None \<Rightarrow> NotFound
      | Some s \<Rightarrow>
          (case map_of (toolsets tbl) (Server.name s) of
             None \<Rightarrow> NotFound
           | Some ts \<Rightarrow>
               (case find (\<lambda>t. Tool.name t = n) ts of
                  None \<Rightarrow> NotFound
                | Some t \<Rightarrow> Found s t)))"

subsection \<open>The configuration \<^verbatim>\<open>configs/proxy-mock-server.yaml\<close>\<close>

text \<open>
  The document as a value of the Config model. A block scalar (\<^verbatim>\<open>|-\<close>) is its lines
  without the block's indentation, joined by line feeds, with no line feed at the end.
  The number \<^verbatim>\<open>123\<close> under \<^verbatim>\<open>config.Cookie\<close> is kept as its text, and the descriptions
  of the properties of \<^verbatim>\<open>notifications\<close>, for which the model's \<open>schema\<close> has no place,
  are left out. The last template ends at its closing brace.
\<close>

fun join_lines :: "string list \<Rightarrow> string" where
  "join_lines [] = []"
| "join_lines [l] = l"
| "join_lines (l # ls) = l @ CHR 0x0A # join_lines ls"

definition register_user_requestBody :: string where
  "register_user_requestBody = join_lines
     [''{'',
      ''  \"username\": \"{{.Args.username}}\",'',
      ''  \"email\": \"{{.Args.email}}\"'',
      ''}'']"

definition register_user_responseBody :: string where
  "register_user_responseBody = join_lines
     [''{'',
      ''  \"id\": \"{{.Response.Data.id}}\",'',
      ''  \"username\": \"{{.Response.Data.username}}\",'',
      ''  \"email\": \"{{.Response.Data.email}}\",'',
      ''  \"createdAt\": \"{{.Response.Data.createdAt}}\"'',
      ''}'']"

definition get_user_by_email_responseBody :: string where
  "get_user_by_email_responseBody = join_lines
     [''{'',
      ''  \"id\": \"{{.Response.Data.id}}\",'',
      ''  \"username\": \"{{.Response.Data.username}}\",'',
      ''  \"email\": \"{{.Response.Data.email}}\",'',
      ''  \"createdAt\": \"{{.Response.Data.createdAt}}\"'',
      ''}'']"

definition update_user_preferences_requestBody :: string where
  "update_user_preferences_requestBody = join_lines
     [''{'',
      ''  \"isPublic\": {{.Args.isPublic}},'',
      ''  \"showEmail\": {{.Args.showEmail}},'',
      ''  \"theme\": \"{{.Args.theme}}\",'',
      ''  \"tags\": {{.Args.tags}},'',
      ''  \"settings\": {{ toJSON .Args.settings }},'',
      ''  \"notifications\": {{ .Args.notifications }}'',
      ''}'']"

definition update_user_preferences_responseBody :: string where
  "update_user_preferences_responseBody = join_lines
     [''{'',
      ''  \"id\": \"{{.Response.Data.id}}\",'',
      ''  \"username\": \"{{.Response.Data.username}}\",'',
      ''  \"email\": \"{{.Response.Data.email}}\",'',
      ''  \"createdAt\": \"{{.Response.Data.createdAt}}\",'',
      ''  \"preferences\": {'',
      ''    \"isPublic\": {{.Response.Data.preferences.isPublic}},'',
      ''    \"showEmail\": {{.Response.Data.preferences.showEmail}},'',
      ''    \"theme\": \"{{.Response.Data.preferences.theme}}\",'',
      ''    \"tags\": {{.Response.Data.preferences.tags}},'',
      ''    \"settings\": {{ toJSON .Response.Data.preferences.settings }},'',
      ''    \"notifications\": {{ toJSON .Response.Data.preferences.notifications }}'',
      ''  }'',
      ''}'']"

definition update_user_avatar_responseBody :: string where
  "update_user_avatar_responseBody = join_lines
     [''{'',
      ''  \"message\": \"{{.Response.Data.message}}\",'',
      ''  \"avatarUrl\": \"{{.Response.Data.avatarUrl}}\"'',
      ''}'']"

definition weather_responseBody :: string where
  "weather_responseBody = join_lines
     [''{'',
      ''  \"status\": \"{{.Response.Data.status}}\",'',
      ''  \"count\": \"{{.Response.Data.count}}\",'',
      ''  \"info\": \"{{.Response.Data.info}\",'',
      ''  \"infocode\": \"{{.Response.Data.infocode}}\",'',
      ''  \"lives\": ['',
      ''    {'',
      ''      \"province\": \"{{.Response.Data.lives.province}}\",'',
      ''      \"city\": \"{{.Response.Data.lives.city}}\",'',
      ''      \"adcode\": \"{{.Response.Data.lives.adcode}}\",'',
      ''      \"weather\": \"{{.Response.Data.lives.weather}}\",'',
      ''      \"temperature\": \"{{.Response.Data.lives.temperature}}\",'',
      ''      \"winddirection\": \"{{.Response.Data.lives.winddirection}}\",'',
      ''      \"windpower\": \"{{.Response.Data.lives.windpower}}\",'',
      ''      \"humidity\": \"{{.Response.Data.lives.humidity}}\",'',
      ''      \"reporttime\": \"{{.Response.Data.lives.reporttime}}\",'',
      ''      \"temperature_float\": \"{{.Response.Data.lives.temperature_float}}\",'',
      ''      \"humidity_float\": \"{{.Response.Data.lives.humidity_float}}\"'',
      ''    }'',
      ''  ]'',
      ''}'']"


definition mock_router :: Router where
  "mock_router =
     \<lparr>server = ''mock-server'', prefix = ''/mcp/user'',
      cors = \<lparr>allowOrigins = [''*''],
              allowMethods = [''GET'', ''POST'', ''PUT'', ''OPTIONS''],
              allowHeaders = [''Content-Type'', ''Authorization'', ''Mcp-Session-Id''],
              exposeHeaders = [''Mcp-Session-Id''],
              allowCredentials = True\<rparr>\<rparr>"

definition mock_server :: Server where
  "mock_server =
     \<lparr>Server.name = ''mock-server'', description = ''Mock User Service'',
      allowedTools = [''register_user'', ''get_user_by_email'', ''update_user_preferences'',
                      ''update_user_avatar'', ''weather''],
      config = [(''Cookie'', ''123''), (''Authorization'', ''Bearer {{ env \"AUTH_TOKEN\" }}'')]\<rparr>"

definition string_arg :: "string \<Rightarrow> position \<Rightarrow> string \<Rightarrow> Arg" where
  "string_arg n p d =
     \<lparr>Arg.name = n, position = p, required = True, type = Scalar String None, default = [],
      description = d\<rparr>"

definition register_user :: Tool where
  "register_user =
     \<lparr>Tool.name = ''register_user'', description = ''Register a new user'',
      http_method = ''POST'', endpoint = ''http://localhost:5236/users'',
      headers = [(''Content-Type'', ''application/json''),
                 (''Authorization'', ''{{.Config.Authorization}}''),
                 (''Cookie'', ''{{.Config.Cookie}}'')],
      args = [string_arg ''username'' Body ''Username'', string_arg ''email'' Body ''Email''],
      requestBody = Some register_user_requestBody,
      responseBody = register_user_responseBody\<rparr>"

definition get_user_by_email_tool :: Tool where
  "get_user_by_email_tool =
     \<lparr>Tool.name = ''get_user_by_email'', description = ''Get user by email'',
      http_method = ''GET'', endpoint = ''http://localhost:5236/users/email/{{.Args.email}}'',
      headers = [],
      args = [string_arg ''email'' Path ''Email''],
      requestBody = None,
      responseBody = get_user_by_email_responseBody\<rparr>"

definition tags_arg :: Arg where
  "tags_arg =
     \<lparr>Arg.name = ''tags'', position = Body, required = True,
      type = Array (Some (Scalar String
               (Some [''developer'', ''designer'', ''manager'', ''tester'']))),
      default = ''[]'', description = ''User role tags''\<rparr>"

definition update_user_preferences :: Tool where
  "update_user_preferences =
     \<lparr>Tool.name = ''update_user_preferences'', description = ''Update user preferences'',
      http_method = ''PUT'', endpoint = ''http://localhost:5236/users/{{.Args.email}}/preferences'',
      headers = [(''Content-Type'', ''application/json''),
                 (''Authorization'', ''{{.Request.Headers.Authorization}}''),
                 (''Cookie'', ''{{.Config.Cookie}}'')],
      args =
        [string_arg ''email'' Path ''Email'',
         \<lparr>Arg.name = ''isPublic'', position = Body, required = True,
          type = Scalar Boolean None, default = ''false'',
          description = ''Whether the user profile is public''\<rparr>,
         \<lparr>Arg.name = ''showEmail'', position = Body, required = True,
          type = Scalar Boolean None, default = ''true'',
          description = ''Whether to show email in profile''\<rparr>,
         \<lparr>Arg.name = ''theme'', position = Body, required = True,
          type = Scalar String None, default = ''light'',
          description = ''User interface theme''\<rparr>,
         tags_arg,
         \<lparr>Arg.name = ''settings'', position = Body, required = False,
          type = Object [], default = ''{}'',
          description = ''User custom settings as key-value pairs''\<rparr>,
         \<lparr>Arg.name = ''notifications'', position = Body, required = False,
          type = Array (Some (Object
                   [(''type'', Scalar String None), (''channel'', Scalar String None),
                    (''enabled'', Scalar Boolean None), (''frequency'', Scalar Number None)])),
          default = ''[]'', description = ''User notification preferences''\<rparr>],
      requestBody = Some update_user_preferences_requestBody,
      responseBody = update_user_preferences_responseBody\<rparr>"

definition update_user_avatar :: Tool where
  "update_user_avatar =
     \<lparr>Tool.name = ''update_user_avatar'',
      description = ''Update user avatar using a URL via multipart form'',
      http_method = ''POST'', endpoint = ''http://localhost:5236/users/{{.Args.email}}/avatar'',
      headers = [(''Authorization'', ''{{.Request.Headers.Authorization}}''),
                 (''Cookie'', ''{{.Config.Cookie}}'')],
      args = [string_arg ''email'' Path ''Email of the user'',
              string_arg ''url'' FormData ''The avatar image URL''],
      requestBody = None,
      responseBody = update_user_avatar_responseBody\<rparr>"

definition weather :: Tool where
  "weather =
     \<lparr>Tool.name = ''weather'',
      description = [CHR 0xE8, CHR 0x8E, CHR 0xB7, CHR 0xE5, CHR 0x8F, CHR 0x96,
                     CHR 0xE5, CHR 0xA4, CHR 0xA9, CHR 0xE6, CHR 0xB0, CHR 0x94],
      http_method = ''GET'', endpoint = ''http://localhost:5236/weather'',
      headers = [(''Content-Type'', ''application/json'')],
      args = [],
      requestBody = None,
      responseBody = weather_responseBody\<rparr>"

definition proxy_mock_server :: Config where
  "proxy_mock_server =
     \<lparr>Config.name = ''mock-server'', tenant = ''default'',
      routers = [mock_router],
      servers = [mock_server],
      tools = [register_user, get_user_by_email_tool, update_user_preferences,
               update_user_avatar, weather]\<rparr>"

section \<open>Properties\<close>

subsection \<open>Notions used in the statements\<close>

text \<open>The member names of a body, and whether one of them selects the field \<open>f\<close>.\<close>

definition member_names :: "json option \<Rightarrow> string list" where
  "member_names body = (case body of Some (JObject kvs) \<Rightarrow> map fst kvs | _ \<Rightarrow> [])"

definition names_field :: "string list \<Rightarrow> json option \<Rightarrow> string \<Rightarrow> bool" where
  "names_field names body f = list_ex (\<lambda>k. field_of names k = Some f) (member_names body)"

text \<open>
  The statement on \<open>Resolve\<close> is made against the specification's own words: the server
  bound to a prefix is the target server of the router with that prefix, and the
  effective tool set of a server is the intersection of its \<^verbatim>\<open>allowedTools\<close> with the
  names of the globally defined tools.
\<close>

definition bound_server :: "Config \<Rightarrow> string \<Rightarrow> Server option" where
  "bound_server c p =
     (case find (\<lambda>r. prefix r = p) (routers c) of
        None \<Rightarrow> None
      | Some r \<Rightarrow> find (\<lambda>s. Server.name s = server r) (servers c))"

definition effective_set :: "Config \<Rightarrow> Server \<Rightarrow> string set" where
  "effective_set c s = set (allowedTools s) \<inter> Tool.name ` set (tools c)"

subsection \<open>Example data\<close>

definition default_Preferences :: Preferences where
  "default_Preferences =
     \<lparr>IsPublic = False, ShowEmail = True, Theme = ''light'', Tags = Some [],
      Settings = Some [], Notifications = Some []\<rparr>"

definition alice :: User where
  "alice =
     \<lparr>ID = ''1'', Username = ''alice'', Email = ''a@x.com'', CreatedAt = 1704067200,
      Preferences = default_Preferences\<rparr>"

definition registered :: "string \<rightharpoonup> User" where
  "registered = [''a@x.com'' \<mapsto> alice]"

definition body_public_dark :: "json option" where
  "body_public_dark = Some (JObject [(''isPublic'', JBool True), (''theme'', JString ''dark'')])"

definition body_isPublic_string :: "json option" where
  "body_isPublic_string = Some (JObject [(''isPublic'', JString ''yes'')])"

definition body_username_number :: "json option" where
  "body_username_number =
     Some (JObject [(''username'', JNumber ''5''), (''email'', JString ''a@x.com'')])"

definition body_theme_then_number :: "json option" where
  "body_theme_then_number =
     Some (JObject [(''theme'', JString ''dark''), (''showEmail'', JBool False),
                    (''isPublic'', JNumber ''1'')])"

definition body_notifications_twice :: "json option" where
  "body_notifications_twice =
     Some (JObject
       [(''notifications'', JArray [JObject [(''type'', JString ''email''), (''enabled'', JBool True)]]),
        (''notifications'', JArray [JObject [(''channel'', JString ''system'')]])])"

definition body_tags_twice :: "json option" where
  "body_tags_twice =
     Some (JObject [(''tags'', JArray [JString ''a'', JString ''b'']), (''tags'', JArray [JNull])])"

subsection \<open>The mock backend\<close>

lemma object_into_keeps:
  "object_into member kvs s = Some s' \<Longrightarrow>
   (\<And>kv t t'. kv \<in> set kvs \<Longrightarrow> member kv t = Some t' \<Longrightarrow> g t' = g t) \<Longrightarrow> g s' = g s"
proof (induction kvs arbitrary: s)
  case Nil
  then show ?case by simp
next
  case (Cons kv kvs)
  from Cons.prems(1) obtain t
    where t: "member kv s = Some t" and r: "object_into member kvs t = Some s'"
    by (auto split: option.splits)
  have "g s' = g t" using Cons.IH [OF r] Cons.prems(2) by auto
  moreover have "g t = g s" using Cons.prems(2) [of kv s t] t by simp
  ultimately show ?case by simp
qed

lemma field_of_in: "field_of names k = Some f \<Longrightarrow> f \<in> set names"
  by (auto simp: field_of_def find_Some_iff split: if_splits)

lemma Preferences_member_other:
  assumes "Preferences_member pf kv t = Some t'"
  shows "field_of Preferences_fields (fst kv) \<noteq> Some ''isPublic''
         \<Longrightarrow> IsPublic (target t') = IsPublic (target t)"
    and "field_of Preferences_fields (fst kv) \<noteq> Some ''showEmail''
         \<Longrightarrow> ShowEmail (target t') = ShowEmail (target t)"
    and "field_of Preferences_fields (fst kv) \<noteq> Some ''theme''
         \<Longrightarrow> Theme (target t') = Theme (target t)"
    and "field_of Preferences_fields (fst kv) \<noteq> Some ''tags''
         \<Longrightarrow> Tags (target t') = Tags (target t)"
    and "field_of Preferences_fields (fst kv) \<noteq> Some ''settings''
         \<Longrightarrow> Settings (target t') = Settings (target t)"
    and "field_of Preferences_fields (fst kv) \<noteq> Some ''notifications''
         \<Longrightarrow> Notifications (target t') = Notifications (target t)"
  using assms
  by (auto simp: Preferences_member_def Preferences_fields_def Let_def
      split: option.splits if_splits dest!: field_of_in)

lemma bound_Preferences_keeps:
  assumes b: "ShouldBindJSON_preferences pf body = Inr p"
    and a: "\<not> names_field Preferences_fields body f"
    and step: "\<And>kv t t'. field_of Preferences_fields (fst kv) \<noteq> Some f
              \<Longrightarrow> Preferences_member pf kv t = Some t' \<Longrightarrow> g (target t') = g (target t)"
  shows "g p = g zero_Preferences"
proof -
  from b obtain v d
    where v: "body = Some v" and i: "into_Preferences pf (fresh zero_Preferences) v = Some d"
      and p: "p = target d"
    by (auto simp: ShouldBindJSON_preferences_def split: option.splits)
  have z: "target (fresh zero_Preferences) = zero_Preferences"
    by (simp add: fresh_def)
  show ?thesis
  proof (cases v)
    case JNull
    with i p z show ?thesis by (simp add: into_Preferences_def)
  next
    case (JObject kvs)
    with i have o: "object_into (Preferences_member pf) kvs (fresh zero_Preferences) = Some d"
      by (simp add: into_Preferences_def)
    have "\<And>kv. kv \<in> set kvs \<Longrightarrow> field_of Preferences_fields (fst kv) \<noteq> Some f"
      using a v JObject by (auto simp: names_field_def member_names_def list_ex_iff)
    with step have "g (target d) = g (target (fresh zero_Preferences))"
      by (intro object_into_keeps [OF o, where g = "\<lambda>d. g (target d)"]) blast
    with p z show ?thesis by simp
  qed (use i in \<open>simp_all add: into_Preferences_def\<close>)
qed

lemma bound_Preferences_absent:
  assumes b: "ShouldBindJSON_preferences pf body = Inr p"
  shows "\<not> names_field Preferences_fields body ''isPublic'' \<Longrightarrow> \<not> IsPublic p"
    and "\<not> names_field Preferences_fields body ''showEmail'' \<Longrightarrow> \<not> ShowEmail p"
    and "\<not> names_field Preferences_fields body ''theme'' \<Longrightarrow> Theme p = []"
    and "\<not> names_field Preferences_fields body ''tags'' \<Longrightarrow> Tags p = None"
    and "\<not> names_field Preferences_fields body ''settings'' \<Longrightarrow> Settings p = None"
    and "\<not> names_field Preferences_fields body ''notifications'' \<Longrightarrow> Notifications p = None"
  using bound_Preferences_keeps [OF b, of _ IsPublic] bound_Preferences_keeps [OF b, of _ ShowEmail]
    bound_Preferences_keeps [OF b, of _ Theme] bound_Preferences_keeps [OF b, of _ Tags]
    bound_Preferences_keeps [OF b, of _ Settings]
    bound_Preferences_keeps [OF b, of _ Notifications]
    Preferences_member_other
  by (simp_all add: zero_Preferences_def)

text \<open>
  Claim C9, as amended. \<^verbatim>\<open>PUT /users/:email/preferences\<close>, for a user that exists. When
  the body binds to the preferences struct, the user's preferences become the decoded
  struct, in which every field that no member of the body selects holds its zero value
  (\<^verbatim>\<open>false\<close>, the empty string, \<^verbatim>\<open>nil\<close>); the user's id, username, email and createdAt are
  as before; no other entry of \<^verbatim>\<open>users\<close> changes; and the response is 200 with the updated
  user. When the body does not bind, whatever it is, the response is 400 with the
  binding's error and \<^verbatim>\<open>users\<close> is as before, the user's preferences included.
\<close>

theorem put_user_preferences_replaces:
  assumes "users email = Some user"
  shows "(\<forall>p. ShouldBindJSON_preferences pf body = Inr p \<longrightarrow>
           put_user_preferences pf users email body =
             (users(email \<mapsto> user\<lparr>Preferences := p\<rparr>), StatusOK,
              JSON_User (user\<lparr>Preferences := p\<rparr>))
         \<and> ID (user\<lparr>Preferences := p\<rparr>) = ID user
         \<and> Username (user\<lparr>Preferences := p\<rparr>) = Username user
         \<and> Email (user\<lparr>Preferences := p\<rparr>) = Email user
         \<and> CreatedAt (user\<lparr>Preferences := p\<rparr>) = CreatedAt user
         \<and> (\<not> names_field Preferences_fields body ''isPublic'' \<longrightarrow> \<not> IsPublic p)
         \<and> (\<not> names_field Preferences_fields body ''showEmail'' \<longrightarrow> \<not> ShowEmail p)
         \<and> (\<not> names_field Preferences_fields body ''theme'' \<longrightarrow> Theme p = [])
         \<and> (\<not> names_field Preferences_fields body ''tags'' \<longrightarrow> Tags p = None)
         \<and> (\<not> names_field Preferences_fields body ''settings'' \<longrightarrow> Settings p = None)
         \<and> (\<not> names_field Preferences_fields body ''notifications''
              \<longrightarrow> Notifications p = None))
       \<and> (\<forall>err. ShouldBindJSON_preferences pf body = Inl err \<longrightarrow>
             put_user_preferences pf users email body =
               (users, StatusBadRequest, JSON_error_bind err))"
proof (intro conjI allI impI)
  fix err
  assume "ShouldBindJSON_preferences pf body = Inl err"
  with assms show "put_user_preferences pf users email body =
               (users, StatusBadRequest, JSON_error_bind err)"
    by (simp add: put_user_preferences_def)
next
  fix p
  assume b: "ShouldBindJSON_preferences pf body = Inr p"
  with assms show "put_user_preferences pf users email body =
             (users(email \<mapsto> user\<lparr>Preferences := p\<rparr>), StatusOK,
              JSON_User (user\<lparr>Preferences := p\<rparr>))"
    by (simp add: put_user_preferences_def Let_def)
  { assume "\<not> names_field Preferences_fields body ''isPublic''"
    then show "\<not> IsPublic p" by (rule bound_Preferences_absent(1) [OF b]) }
  { assume "\<not> names_field Preferences_fields body ''showEmail''"
    then show "\<not> ShowEmail p" by (rule bound_Preferences_absent(2) [OF b]) }
  { assume "\<not> names_field Preferences_fields body ''theme''"
    then show "Theme p = []" by (rule bound_Preferences_absent(3) [OF b]) }
  { assume "\<not> names_field Preferences_fields body ''tags''"
    then show "Tags p = None" by (rule bound_Preferences_absent(4) [OF b]) }
  { assume "\<not> names_field Preferences_fields body ''settings''"
    then show "Settings p = None" by (rule bound_Preferences_absent(5) [OF b]) }
  { assume "\<not> names_field Preferences_fields body ''notifications''"
    then show "Notifications p = None" by (rule bound_Preferences_absent(6) [OF b]) }
qed simp_all

text \<open>The definitions that evaluate a binding to the preferences struct.\<close>

lemmas decode_simps =
  ShouldBindJSON_preferences_def into_Preferences_def Preferences_member_def field_of_def
  Preferences_fields_def into_bool_def into_string_def into_strings_def into_slice_def fresh_def
  Let_def

text \<open>
  A field that two members select: \<^verbatim>\<open>{"tags": ["a", "b"], "tags": [null]}\<close> leaves the tags
  \<^verbatim>\<open>["a"]\<close>, since the second array is decoded into the elements of the first; in the
  same way a second \<^verbatim>\<open>notifications\<close> array keeps the fields of an element that it does not
  name.
\<close>

lemma tags_named_twice:
  "ShouldBindJSON_preferences pf body_tags_twice = Inr (zero_Preferences\<lparr>Tags := Some [''a'']\<rparr>)"
  by (simp add: decode_simps body_tags_twice_def)

lemma notifications_named_twice:
  "ShouldBindJSON_preferences pf body_notifications_twice =
     Inr (zero_Preferences
            \<lparr>Notifications :=
               Some [\<lparr>Type = ''email'', Channel = ''system'', Enabled = True, Frequency = 0\<rparr>]\<rparr>)"
  by (simp add: decode_simps body_notifications_twice_def into_Notifications_def
      into_Notification_def Notification_member_def Notification_fields_def
      zero_Notification_def zero_Preferences_def)

text \<open>
  The theorem for the user \<open>alice\<close>, at \<^verbatim>\<open>{"isPublic": true, "theme": "dark"}\<close>, where the
  fields the body does not name (here the tags) are reset, and at
  \<^verbatim>\<open>{"theme": "dark", "showEmail": false, "isPublic": 1}\<close>, which does not bind: nothing
  of it reaches the stored user.
\<close>

theorem put_user_preferences_replaces_witness:
  "registered ''a@x.com'' = Some alice
   \<and> ShouldBindJSON_preferences (\<lambda>_. None) body_public_dark =
       Inr (zero_Preferences\<lparr>IsPublic := True, Theme := ''dark''\<rparr>)
   \<and> snd (put_user_preferences (\<lambda>_. None) registered ''a@x.com'' body_public_dark) =
       (StatusOK,
        JSON_User (alice\<lparr>Preferences := zero_Preferences\<lparr>IsPublic := True, Theme := ''dark''\<rparr>\<rparr>))
   \<and> Tags (zero_Preferences\<lparr>IsPublic := True, Theme := ''dark''\<rparr>) = None
   \<and> ShouldBindJSON_preferences (\<lambda>_. None) body_theme_then_number = Inl UnmarshalTypeError
   \<and> put_user_preferences (\<lambda>_. None) registered ''a@x.com'' body_theme_then_number =
       (registered, StatusBadRequest, JSON_error_bind UnmarshalTypeError)"
proof -
  have u: "registered ''a@x.com'' = Some alice"
    by (simp add: registered_def)
  have b: "ShouldBindJSON_preferences (\<lambda>_. None) body_public_dark =
       Inr (zero_Preferences\<lparr>IsPublic := True, Theme := ''dark''\<rparr>)"
    by (simp add: decode_simps body_public_dark_def)
  have n: "\<not> names_field Preferences_fields body_public_dark ''tags''"
    by (simp add: names_field_def member_names_def body_public_dark_def field_of_def
        Preferences_fields_def)
  have e: "ShouldBindJSON_preferences (\<lambda>_. None) body_theme_then_number = Inl UnmarshalTypeError"
    by (simp add: decode_simps body_theme_then_number_def)
  show ?thesis
    using put_user_preferences_replaces
            [of registered "''a@x.com''" alice "\<lambda>_. None" body_public_dark, OF u]
      put_user_preferences_replaces
            [of registered "''a@x.com''" alice "\<lambda>_. None" body_theme_then_number, OF u]
      u b n e
    by simp
qed

text \<open>
  Claim C9 as stated fails: \<^verbatim>\<open>{"isPublic": "yes"}\<close> is a valid JSON body, the binding
  rejects it (a string where the field is a \<^verbatim>\<open>bool\<close>), and the handler answers 400 and
  leaves the user's preferences as they were.
\<close>

theorem put_user_preferences_valid_json_counterexample:
  "body_isPublic_string \<noteq> None
   \<and> put_user_preferences (\<lambda>_. None) registered ''a@x.com'' body_isPublic_string =
       (registered, StatusBadRequest, JSON_error_bind UnmarshalTypeError)
   \<and> StatusBadRequest \<noteq> StatusOK
   \<and> map_option Preferences (registered ''a@x.com'') = Some default_Preferences"
  by (simp add: decode_simps body_isPublic_string_def
      put_user_preferences_def registered_def alice_def StatusBadRequest_def StatusOK_def)

lemma Preferences_all_written:
  "p\<lparr>IsPublic := a, ShowEmail := b, Theme := c, Tags := d, Settings := e, Notifications := f\<rparr> =
   \<lparr>IsPublic = a, ShowEmail = b, Theme = c, Tags = d, Settings = e, Notifications = f\<rparr>"
  by (cases p) simp

lemma User_written:
  "u\<lparr>ID := i, CreatedAt := c, Preferences := p\<rparr> =
   \<lparr>ID = i, Username = Username u, Email = Email u, CreatedAt = c, Preferences = p\<rparr>"
  by (cases u) simp

text \<open>
  Claim C10, as amended. \<^verbatim>\<open>POST /users\<close>: when the body binds to the \<^verbatim>\<open>User\<close> struct, the
  user stored under its email and returned with status 201 has the generated UUID as id,
  the server's time as createdAt and the fixed default preferences; of what the client
  sent only the username and the email are kept. When the binding fails, the response
  is 400 and \<^verbatim>\<open>users\<close> is unchanged.
\<close>

theorem post_users_result:
  "post_users pf pt new_uuid now users body =
     (case ShouldBindJSON_User pf pt body of
        Inl err \<Rightarrow> (users, StatusBadRequest, JSON_error_bind err)
      | Inr u \<Rightarrow>
          (users(Email u \<mapsto>
             \<lparr>ID = new_uuid, Username = Username u, Email = Email u, CreatedAt = now,
              Preferences =
                \<lparr>IsPublic = False, ShowEmail = True, Theme = ''light'', Tags = Some [],
                 Settings = Some [], Notifications = Some []\<rparr>\<rparr>),
           StatusCreated,
           JSON_User
             \<lparr>ID = new_uuid, Username = Username u, Email = Email u, CreatedAt = now,
              Preferences =
                \<lparr>IsPublic = False, ShowEmail = True, Theme = ''light'', Tags = Some [],
                 Settings = Some [], Notifications = Some []\<rparr>\<rparr>))"
  by (cases "ShouldBindJSON_User pf pt body")
    (simp_all add: post_users_def Let_def Preferences_all_written User_written)

text \<open>
  Claim C10 as stated fails: \<^verbatim>\<open>{"username": 5, "email": "a@x.com"}\<close> is a valid JSON
  body, the binding rejects it (a number where the field is a \<^verbatim>\<open>string\<close>), and the handler
  answers 400 and stores nothing.
\<close>

theorem post_users_valid_json_counterexample:
  "body_username_number \<noteq> None
   \<and> post_users (\<lambda>_. None) (\<lambda>_. None) ''u-1'' 0 Map.empty body_username_number =
       (Map.empty, StatusBadRequest, JSON_error_bind UnmarshalTypeError)
   \<and> StatusBadRequest \<noteq> StatusCreated"
  by (simp add: post_users_def ShouldBindJSON_User_def body_username_number_def into_User_def
      User_member_def field_of_def User_fields_def into_string_def fresh_def Let_def
      StatusBadRequest_def StatusCreated_def)

subsection \<open>The routing table\<close>

lemma valid_routers:
  assumes "valid_config c" and "r \<in> set (routers c)"
  shows "\<exists>s. find_server c (server r) = Some s"
proof -
  from assms have "server r \<in> set (map Server.name (servers c))"
    by (simp add: valid_config_def list_all_iff)
  then have "find (\<lambda>s. Server.name s = server r) (servers c) \<noteq> None"
    by (auto simp: find_None_iff)
  then show ?thesis by (auto simp: find_server_def)
qed

lemma prefixes_lookup:
  assumes "\<And>r. r \<in> set rs \<Longrightarrow> \<exists>s. find_server c (server r) = Some s"
  shows "map_of (List.map_filter (\<lambda>r. map_option (Pair (prefix r)) (find_server c (server r))) rs) p
       = (case find (\<lambda>r. prefix r = p) rs of None \<Rightarrow> None | Some r \<Rightarrow> find_server c (server r))"
  using assms
proof (induction rs)
  case Nil
  then show ?case by (simp add: List.map_filter_simps)
next
  case (Cons r rs)
  from Cons.prems obtain s where s: "find_server c (server r) = Some s" by auto
  have "map_of (List.map_filter (\<lambda>r. map_option (Pair (prefix r)) (find_server c (server r))) rs) p
       = (case find (\<lambda>r. prefix r = p) rs of None \<Rightarrow> None | Some r \<Rightarrow> find_server c (server r))"
    using Cons.IH Cons.prems by simp
  with s show ?case by (simp add: List.map_filter_simps)
qed

lemma toolsets_lookup:
  "map_of (map (\<lambda>s. (f s, g s)) xs) k = map_option g (find (\<lambda>s. f s = k) xs)"
  by (induction xs) auto

lemma find_filter:
  "find (\<lambda>t. f t = n) (filter (\<lambda>t. f t \<in> A) ts) = (if n \<in> A then find (\<lambda>t. f t = n) ts else None)"
  by (induction ts) auto

lemma find_name: "find (\<lambda>s. f s = k) xs = Some s \<Longrightarrow> s \<in> set xs \<and> f s = k"
  by (auto simp: find_Some_iff)

lemma bound_server_find: "bound_server c p =
     (case find (\<lambda>r. prefix r = p) (routers c) of None \<Rightarrow> None | Some r \<Rightarrow> find_server c (server r))"
  by (simp add: bound_server_def find_server_def split: option.split)

lemma Resolve_build:
  assumes "valid_config c"
  shows "Resolve (build c) p n =
     (case bound_server c p of
        None \<Rightarrow> NotFound
      | Some s \<Rightarrow>
          (if n \<in> set (allowedTools s)
           then (case find (\<lambda>t. Tool.name t = n) (tools c) of None \<Rightarrow> NotFound | Some t \<Rightarrow> Found s t)
           else NotFound))"
proof -
  have p: "map_of (prefixes (build c)) p = bound_server c p"
    using prefixes_lookup [of "routers c" c p] valid_routers [OF assms]
    by (simp add: build_def bound_server_find)
  show ?thesis
  proof (cases "bound_server c p")
    case None
    with p show ?thesis by (simp add: Resolve_def)
  next
    case (Some s)
    then obtain r :: Router where "find_server c (server r) = Some s"
      by (cases "find (\<lambda>r. prefix r = p) (routers c)") (simp_all add: bound_server_find)
    then have "find (\<lambda>s. Server.name s = server r) (servers c) = Some s"
      by (simp add: find_server_def)
    then have "find (\<lambda>x. Server.name x = Server.name s) (servers c) = Some s"
      using find_name [of Server.name "server r" "servers c" s] by simp
    then have t: "map_of (toolsets (build c)) (Server.name s) = Some (effective_tools c s)"
      by (simp add: build_def toolsets_lookup)
    show ?thesis
      using p Some t by (simp add: Resolve_def effective_tools_def find_filter)
  qed
qed

text \<open>
  Claim C1. For every valid Config, \<open>Resolve\<close> on the table built from it returns a
  Server and Tool pair if and only if the prefix is bound to a server and the tool name
  is in that server's effective tool set (its \<^verbatim>\<open>allowedTools\<close> intersected with the
  globally defined tools); the pair is then that server with a defined tool of that
  name; in every other case \<open>Resolve\<close> returns \<open>NotFound\<close>.
\<close>

theorem Resolve_iff_effective:
  assumes "valid_config c"
  shows "((\<exists>s t. Resolve (build c) p n = Found s t)
            \<longleftrightarrow> (\<exists>s. bound_server c p = Some s \<and> n \<in> effective_set c s))
       \<and> (\<forall>s t. Resolve (build c) p n = Found s t
            \<longrightarrow> bound_server c p = Some s \<and> t \<in> set (tools c) \<and> Tool.name t = n)
       \<and> (\<not> (\<exists>s. bound_server c p = Some s \<and> n \<in> effective_set c s)
            \<longrightarrow> Resolve (build c) p n = NotFound)"
proof (cases "bound_server c p")
  case None
  then have "Resolve (build c) p n = NotFound"
    by (simp add: Resolve_build [OF assms])
  with None show ?thesis by simp
next
  case (Some s)
  note b = this
  show ?thesis
  proof (cases "n \<in> set (allowedTools s)")
    case False
    with b have "Resolve (build c) p n = NotFound"
      by (simp add: Resolve_build [OF assms])
    moreover from False have "n \<notin> effective_set c s"
      by (simp add: effective_set_def)
    ultimately show ?thesis using b by simp
  next
    case True
    show ?thesis
    proof (cases "find (\<lambda>t. Tool.name t = n) (tools c)")
      case None
      with b True have r: "Resolve (build c) p n = NotFound"
        by (simp add: Resolve_build [OF assms])
      from None have "n \<notin> Tool.name ` set (tools c)"
        by (auto simp: find_None_iff)
      then have "n \<notin> effective_set c s"
        by (simp add: effective_set_def)
      with r show ?thesis using b by simp
    next
      case (Some t)
      with b True have r: "Resolve (build c) p n = Found s t"
        by (simp add: Resolve_build [OF assms])
      from Some have t: "t \<in> set (tools c) \<and> Tool.name t = n"
        by (rule find_name)
      then have "n \<in> Tool.name ` set (tools c)" by blast
      with True have e: "n \<in> effective_set c s"
        by (simp add: effective_set_def)
      have 1: "\<exists>s t. Resolve (build c) p n = Found s t"
        using r by blast
      have 2: "\<exists>s. bound_server c p = Some s \<and> n \<in> effective_set c s"
        using b e by blast
      have 3: "\<forall>s' t'. Resolve (build c) p n = Found s' t'
            \<longrightarrow> bound_server c p = Some s' \<and> t' \<in> set (tools c) \<and> Tool.name t' = n"
      proof (intro allI impI)
        fix s' t'
        assume "Resolve (build c) p n = Found s' t'"
        with r have "s' = s" and "t' = t" by simp_all
        with b t show "bound_server c p = Some s' \<and> t' \<in> set (tools c) \<and> Tool.name t' = n"
          by blast
      qed
      from 1 2 3 show ?thesis by blast
    qed
  qed
qed

text \<open>The names in \<^verbatim>\<open>configs/proxy-mock-server.yaml\<close>.\<close>

lemma proxy_mock_server_names:
  "map Tool.name (tools proxy_mock_server) =
     [''register_user'', ''get_user_by_email'', ''update_user_preferences'',
      ''update_user_avatar'', ''weather'']"
  "map Server.name (servers proxy_mock_server) = [''mock-server'']"
  "map (\<lambda>r. (prefix r, server r)) (routers proxy_mock_server) = [(''/mcp/user'', ''mock-server'')]"
  "allowedTools mock_server =
     [''register_user'', ''get_user_by_email'', ''update_user_preferences'',
      ''update_user_avatar'', ''weather'']"
  by (simp_all add: proxy_mock_server_def register_user_def get_user_by_email_tool_def
      update_user_preferences_def update_user_avatar_def weather_def mock_server_def
      mock_router_def)

text \<open>
  The theorem at \<^verbatim>\<open>configs/proxy-mock-server.yaml\<close>, which is valid: under \<^verbatim>\<open>/mcp/user\<close>
  the allowed tool \<^verbatim>\<open>weather\<close> resolves and \<^verbatim>\<open>delete_user\<close>, which no tool defines, does
  not; no router has the prefix \<^verbatim>\<open>/mcp/admin\<close>.
\<close>

theorem Resolve_iff_effective_witness:
  "valid_config proxy_mock_server
   \<and> bound_server proxy_mock_server ''/mcp/user'' = Some mock_server
   \<and> ''weather'' \<in> effective_set proxy_mock_server mock_server
   \<and> (\<exists>s t. Resolve (build proxy_mock_server) ''/mcp/user'' ''weather'' = Found s t)
   \<and> ''delete_user'' \<notin> effective_set proxy_mock_server mock_server
   \<and> Resolve (build proxy_mock_server) ''/mcp/user'' ''delete_user'' = NotFound
   \<and> bound_server proxy_mock_server ''/mcp/admin'' = None
   \<and> Resolve (build proxy_mock_server) ''/mcp/admin'' ''weather'' = NotFound"
proof -
  have v: "valid_config proxy_mock_server"
    by code_simp
  have b: "bound_server proxy_mock_server ''/mcp/user'' = Some mock_server"
    by (simp add: bound_server_def proxy_mock_server_def mock_router_def mock_server_def)
  have a: "bound_server proxy_mock_server ''/mcp/admin'' = None"
    by (simp add: bound_server_def proxy_mock_server_def mock_router_def)
  have w: "''weather'' \<in> effective_set proxy_mock_server mock_server"
    unfolding effective_set_def set_map [symmetric] proxy_mock_server_names by simp
  have d: "''delete_user'' \<notin> effective_set proxy_mock_server mock_server"
    unfolding effective_set_def set_map [symmetric] proxy_mock_server_names by simp
  show ?thesis
    using Resolve_iff_effective [OF v, of "''/mcp/user''" "''weather''"]
      Resolve_iff_effective [OF v, of "''/mcp/user''" "''delete_user''"]
      Resolve_iff_effective [OF v, of "''/mcp/admin''" "''weather''"]
      v b a w d
    by simp
qed

end
